theory Spec2Isabelle
  imports Main
begin

section \<open>Python values and library functions used by the sources\<close>

text \<open>
  Python \<open>str\<close> values are modelled as \<^typ>\<open>string\<close>: a character is a code point below 256.
  An optional argument whose default is \<open>None\<close> is a \<^typ>\<open>string option\<close>. Exceptions are values
  of the type \<open>error\<close>; a function that may raise returns \<open>error + 'a\<close>, with \<open>Inl\<close> for the
  raised exception.
\<close>

datatype error =
    ValueError string
  | UnboundLocalError string
  | FileNotFoundError string
  | Exception string

text \<open>Truthiness of an optional string (\<open>if path\<close>): \<open>None\<close> and \<open>''\<close> are false.\<close>

definition truthy :: "string option \<Rightarrow> bool" where
  "truthy s = (case s of None \<Rightarrow> False | Some v \<Rightarrow> v \<noteq> [])"

text \<open>Truthiness of an optional list (\<open>if results\<close>): \<open>None\<close> and \<open>[]\<close> are false.\<close>

definition truthy_list :: "'a list option \<Rightarrow> bool" where
  "truthy_list xs = (case xs of None \<Rightarrow> False | Some v \<Rightarrow> v \<noteq> [])"

text \<open>\<open>sep.join(items)\<close>.\<close>

fun join :: "string \<Rightarrow> string list \<Rightarrow> string" where
  "join sep [] = []"
| "join sep [x] = x"
| "join sep (x # y # ys) = x @ sep @ join sep (y # ys)"

text \<open>\<open>s.replace(a, b)\<close> for one-character \<open>a\<close> and \<open>b\<close>.\<close>

definition replace :: "char \<Rightarrow> char \<Rightarrow> string \<Rightarrow> string" where
  "replace a b s = map (\<lambda>c. if c = a then b else c) s"

text \<open>\<open>f'{x}'\<close> of an optional string: \<open>None\<close> is formatted as the text \<open>None\<close>.\<close>

definition format_str :: "string option \<Rightarrow> string" where
  "format_str s = (case s of None \<Rightarrow> ''None'' | Some v \<Rightarrow> v)"

text \<open>\<open>os.path.basename\<close> and the two-argument \<open>os.path.join\<close> of \<open>posixpath\<close>.\<close>

definition basename :: "string \<Rightarrow> string" where
  "basename p = rev (takeWhile (\<lambda>c. c \<noteq> CHR ''/'') (rev p))"

definition os_path_join :: "string \<Rightarrow> string \<Rightarrow> string" where
  "os_path_join a b =
     (if b \<noteq> [] \<and> hd b = CHR ''/'' then b
      else if a = [] \<or> last a = CHR ''/'' then a @ b
      else a @ ''/'' @ b)"

text \<open>
  \<open>repr(s)\<close> of a string, as the \<open>{x=}\<close> form of an f-string and the message of \<open>int\<close> print
  it. The text is put in single quotes, or in double quotes when it holds a single quote and
  no double quote; the quote character in use and the backslash are escaped with a
  backslash, tab, newline and carriage return are written \<open>\t\<close>, \<open>\n\<close>, \<open>\r\<close>, every other
  non-printable character (below 32, from 127 to 160, and 173) as \<open>\x\<close> and two hexadecimal
  digits.
\<close>

definition hex_digit :: "nat \<Rightarrow> char" where
  "hex_digit n = ''0123456789abcdef'' ! (n mod 16)"

definition repr_char :: "char \<Rightarrow> char \<Rightarrow> string" where
  "repr_char quote c =
     (let code = (of_char c :: nat)
      in if c = quote \<or> c = CHR 0x5C then [CHR 0x5C, c]
         else if c = CHR 0x09 then [CHR 0x5C, CHR ''t'']
         else if c = CHR 0x0A then [CHR 0x5C, CHR ''n'']
         else if c = CHR 0x0D then [CHR 0x5C, CHR ''r'']
         else if code < 32 \<or> (127 \<le> code \<and> code \<le> 160) \<or> code = 173
         then [CHR 0x5C, CHR ''x'', hex_digit (code div 16), hex_digit (code mod 16)]
         else [c])"

definition repr_str :: "string \<Rightarrow> string" where
  "repr_str s =
     (let quote = (if CHR 0x27 \<in> set s \<and> CHR 0x22 \<notin> set s then CHR 0x22 else CHR 0x27)
      in [quote] @ concat (map (repr_char quote) s) @ [quote])"

text \<open>
  Text files of the host: \<open>fs p\<close> is the content of the file at path \<open>p\<close>, or \<open>None\<close> when
  \<open>open(p)\<close> raises. Every \<open>open\<close> call is recorded as an event.
\<close>

type_synonym filesystem = "string \<Rightarrow> string option"

datatype io_event = Open string


section \<open>steps.py\<close>

text \<open>
  Modelled from the spec: \<open>tkn.model.NamedParam\<close>, a declared pipeline parameter
  \<open>{name, default?}\<close>; its declaration is not part of the sources.
\<close>

record NamedParam =
  np_name :: string
  np_default :: "string option"

datatype ScriptType = BOURNE_SHELL | PYTHON3

text \<open>
  The module constants \<open>scripts_dir\<close> and \<open>steps_dir\<close> are computed from \<open>own_dir\<close>, the
  absolute directory of the module file, which is a parameter here.
\<close>

definition scripts_dir :: "string \<Rightarrow> string" where
  "scripts_dir own_dir = own_dir"

definition steps_dir :: "string \<Rightarrow> string" where
  "steps_dir own_dir = os_path_join own_dir ''steps''"

definition extend_python_path_snippet :: "string \<Rightarrow> string \<Rightarrow> string" where
  \<open>extend_python_path_snippet own_dir param_name =
     (let sd_name = basename (scripts_dir own_dir)
      in ''sys.path.insert(1,os.path.abspath(os.path.join("$(params.'' @ param_name
           @ '')","'' @ sd_name @ ''")))'')\<close>

text \<open>The two generator expressions of the \<open>PYTHON3\<close> branch (lines 61--68).\<close>

definition python_param_arg :: "NamedParam \<Rightarrow> string" where
  \<open>python_param_arg param =
     replace CHR ''-'' CHR ''_'' (np_name param) @ ''='$(params.'' @ np_name param @ '')'' @ [CHR 0x27]\<close>

definition python_result_arg :: "NamedParam \<Rightarrow> string" where
  \<open>python_result_arg result =
     replace CHR ''-'' CHR ''_'' (np_name result) @ ''='$(results.'' @ np_name result
       @ ''.path)'' @ [CHR 0x27]\<close>

text \<open>The two list comprehensions of the \<open>BOURNE_SHELL\<close> branch (lines 73--75).\<close>

definition shell_param_arg :: "NamedParam \<Rightarrow> string" where
  \<open>shell_param_arg param = ''"$(params.'' @ np_name param @ '')"''\<close>

definition shell_result_arg :: "NamedParam \<Rightarrow> string" where
  \<open>shell_result_arg result = ''"$(results.'' @ np_name result @ ''.path)"''\<close>

text \<open>
  Lines 54--76 of \<open>task_step_script\<close>: the values bound in the two branches. A
  \<open>NamedParam\<close> object is truthy, so \<open>if repo_path_param\<close> tests that the argument was given.
\<close>

definition shebang_of :: "ScriptType \<Rightarrow> string" where
  "shebang_of script_type =
     (case script_type of
        PYTHON3 \<Rightarrow> ''#!/usr/bin/env python3''
      | BOURNE_SHELL \<Rightarrow> ''#!/usr/bin/env bash'')"

definition preamble_of :: "string \<Rightarrow> ScriptType \<Rightarrow> NamedParam option \<Rightarrow> string" where
  "preamble_of own_dir script_type repo_path_param =
     (case script_type of
        PYTHON3 \<Rightarrow>
          (case repo_path_param of
             Some p \<Rightarrow> ''import sys,os;'' @ extend_python_path_snippet own_dir (np_name p)
           | None \<Rightarrow> [])
      | BOURNE_SHELL \<Rightarrow> [])"

definition args_of :: "ScriptType \<Rightarrow> NamedParam list \<Rightarrow> NamedParam list option \<Rightarrow> string" where
  "args_of script_type params results =
     (case script_type of
        PYTHON3 \<Rightarrow>
          (let args = join '','' (map python_param_arg params)
           in if truthy_list results
              then args @ '','' @ join '','' (map python_result_arg (the results))
              else args)
      | BOURNE_SHELL \<Rightarrow>
          (let args = join '' '' (map shell_param_arg params)
           in if truthy_list results
              then '' '' @ join '' '' (map shell_result_arg (the results))
              else args))"

definition callable_str_of ::
  "ScriptType \<Rightarrow> string option \<Rightarrow> NamedParam list \<Rightarrow> NamedParam list option \<Rightarrow> string" where
  "callable_str_of script_type callable params results =
     (case script_type of
        PYTHON3 \<Rightarrow> format_str callable @ ''('' @ args_of PYTHON3 params results @ '')''
      | BOURNE_SHELL \<Rightarrow> format_str callable @ '' '' @ args_of BOURNE_SHELL params results)"

text \<open>
  Lines 48--52: the script body. It stays unbound (\<open>None\<close>) when neither \<open>path\<close> nor
  \<open>inline_script\<close> is truthy; reading the file is the only I/O of the function.
\<close>

definition load_script ::
  "filesystem \<Rightarrow> string option \<Rightarrow> string option \<Rightarrow> io_event list \<times> (error + string option)" where
  "load_script fs path inline_script =
     (if truthy path then
        ([Open (the path)],
         case fs (the path) of
           None \<Rightarrow> Inl (FileNotFoundError (the path))
         | Some content \<Rightarrow> Inr (Some content))
      else if truthy inline_script then ([], Inr (Some (the inline_script)))
      else ([], Inr None))"

definition task_step_script ::
  "string \<Rightarrow> filesystem \<Rightarrow> ScriptType \<Rightarrow> string option \<Rightarrow> NamedParam list \<Rightarrow>
   NamedParam list option \<Rightarrow> NamedParam option \<Rightarrow> string option \<Rightarrow> string option \<Rightarrow>
   io_event list \<times> (error + string)" where
  "task_step_script own_dir fs script_type callable params results repo_path_param path
       inline_script =
     (if truthy path \<and> truthy inline_script then
        ([], Inl (ValueError ''Either use path or inline_script but not both.''))
      else
        (case load_script fs path inline_script of
           (evs, Inl e) \<Rightarrow> (evs, Inl e)
         | (evs, Inr None) \<Rightarrow> (evs, Inl (UnboundLocalError ''script''))
         | (evs, Inr (Some script)) \<Rightarrow>
             (let shebang = shebang_of script_type;
                  preamble = preamble_of own_dir script_type repo_path_param;
                  callable_str = callable_str_of script_type callable params results
              in if truthy callable
                 then (evs, Inr (join ''\<newline>'' [shebang, preamble, script, callable_str]))
                 else (evs, Inr (join ''\<newline>'' [shebang, preamble, script])))))"

subsection \<open>The step builder \<open>promote_single_step\<close>\<close>

text \<open>
  Python lists are mutable objects. A list object is an address of a \<open>heap\<close>; the heap gives
  each list object its current elements. A dictionary \<open>{'name': ..., 'value': ...}\<close> is an
  association list in insertion order.
\<close>

type_synonym addr = nat

type_synonym env_entry = "(string \<times> string option) list"

type_synonym heap = "addr \<Rightarrow> env_entry list"

text \<open>
  Modelled from the spec: \<open>tkn.model.TaskStep\<close>, a step definition
  \<open>{name, image, script, volumeMounts[], env[]}\<close> that keeps the objects given to its
  constructor, so \<open>volumeMounts\<close> and \<open>env\<close> hold the addresses of the list objects passed in;
  its declaration is not part of the sources.
\<close>

record TaskStep =
  ts_name :: string
  ts_image :: string
  ts_script :: string
  ts_volumeMounts :: addr
  ts_env :: addr

text \<open>
  Modelled from the spec: \<open>params.AllParams\<close>, the catalog of declared parameters; only the
  attributes read by \<open>promote_single_step\<close> are listed. Its declaration is not part of the
  sources.
\<close>

record AllParams =
  params_architecture :: NamedParam
  params_cicd_cfg_name :: NamedParam
  params_gardenlinux_committish :: NamedParam
  params_gardenlinux_epoch :: NamedParam
  params_modifiers :: NamedParam
  params_platform :: NamedParam
  params_build_targets :: NamedParam
  params_version :: NamedParam
  params_gardenlinux_repo_dir :: NamedParam
  params_repo_dir :: NamedParam

text \<open>
  The default values \<open>env_vars=[]\<close> and \<open>volume_mounts=[]\<close> are evaluated once, when the
  \<open>def\<close> statement runs: they are two list objects owned by the function.
\<close>

definition promote_single_step_default_env_vars :: addr where
  "promote_single_step_default_env_vars = 0"

definition promote_single_step_default_volume_mounts :: addr where
  "promote_single_step_default_volume_mounts = 1"

definition gardenlinux_path_entry :: "AllParams \<Rightarrow> env_entry" where
  "gardenlinux_path_entry params =
     [(''name'', Some ''GARDENLINUX_PATH''),
      (''value'', np_default (params_gardenlinux_repo_dir params))]"

text \<open>
  \<open>env_vars\<close> and \<open>volume_mounts\<close> are \<open>None\<close> when the caller omits the argument, and the
  address of the caller's list otherwise. The result is the heap after the call, the file
  events, and the returned pair or the exception raised.
\<close>

definition promote_single_step ::
  "string \<Rightarrow> filesystem \<Rightarrow> AllParams \<Rightarrow> addr option \<Rightarrow> addr option \<Rightarrow> heap \<Rightarrow>
   heap \<times> io_event list \<times> (error + TaskStep \<times> NamedParam list)" where
  "promote_single_step own_dir fs params env_vars_arg volume_mounts_arg h =
     (let env_vars = (case env_vars_arg of
                        None \<Rightarrow> promote_single_step_default_env_vars | Some a \<Rightarrow> a);
          volume_mounts = (case volume_mounts_arg of
                             None \<Rightarrow> promote_single_step_default_volume_mounts | Some a \<Rightarrow> a);
          step_params =
            [params_architecture params,
             params_cicd_cfg_name params,
             params_gardenlinux_committish params,
             params_gardenlinux_epoch params,
             params_modifiers params,
             params_platform params,
             params_build_targets params,
             params_version params];
          h' = h(env_vars := h env_vars @ [gardenlinux_path_entry params]);
          (evs, script) =
            task_step_script own_dir fs PYTHON3 (Some ''promote_single_step'') step_params None
              (Some (params_repo_dir params))
              (Some (os_path_join (steps_dir own_dir) ''promote_step.py'')) None
      in (h', evs,
          case script of
            Inl e \<Rightarrow> Inl e
          | Inr s \<Rightarrow>
              Inr (\<lparr>ts_name = ''promote-step'',
                    ts_image = ''$(params.step_image)'',
                    ts_script = s,
                    ts_volumeMounts = volume_mounts,
                    ts_env = env_vars\<rparr>,
                   step_params)))"


section \<open>glci/credentialmanager.py\<close>

datatype CCconfigPrecedence = ALWAYS | PROBE | NEVER

definition CCconfigPrecedence_value :: "CCconfigPrecedence \<Rightarrow> string" where
  "CCconfigPrecedence_value m =
     (case m of ALWAYS \<Rightarrow> ''always'' | PROBE \<Rightarrow> ''probe'' | NEVER \<Rightarrow> ''never'')"

text \<open>
  What a caller can pass as \<open>use_cc_config\<close>: the annotation asks for a member of the
  enumeration, the command line option \<open>--use-cc-config\<close> delivers the member's value, a
  string.
\<close>

datatype policy_arg = Member CCconfigPrecedence | Str string

text \<open>
  \<open>equals\<close> is \<open>self.value == str\<close>: a \<open>str\<close> compared with \<open>==\<close>. The enumeration is a plain
  \<open>enum.Enum\<close>, so a string never equals one of its members.
\<close>

definition equals :: "CCconfigPrecedence \<Rightarrow> policy_arg \<Rightarrow> bool" where
  "equals self str = (case str of Str s \<Rightarrow> CCconfigPrecedence_value self = s | Member m \<Rightarrow> False)"

text \<open>The process environment: \<open>os.getenv\<close> is \<open>None\<close> for a variable that is not set.\<close>

type_synonym environ = "string \<Rightarrow> string option"

text \<open>
  An instance of \<open>CredentialManager\<close>: \<open>cm_id\<close> is the identity of the object (the number of
  instances constructed before it), \<open>use_cc_config_server\<close> is its attribute.
\<close>

record CredentialManager =
  cm_id :: nat
  use_cc_config_server :: bool

definition cc_config_server_available :: "environ \<Rightarrow> bool" where
  "cc_config_server_available getenv =
     (truthy (getenv ''SECRETS_SERVER_ENDPOINT'')
      \<and> truthy (getenv ''SECRETS_SERVER_CONCOURSE_CFG_NAME''))"

definition CredentialManager_init :: "nat \<Rightarrow> environ \<Rightarrow> policy_arg \<Rightarrow> CredentialManager" where
  "CredentialManager_init ident getenv use_cc_config =
     (if equals ALWAYS use_cc_config
         \<or> (equals PROBE use_cc_config \<and> cc_config_server_available getenv)
      then \<lparr>cm_id = ident, use_cc_config_server = True\<rparr>
      else \<lparr>cm_id = ident, use_cc_config_server = False\<rparr>)"

text \<open>
  The class: its attribute \<open>_instance\<close> and, for the proofs, the number of constructor calls
  made so far.
\<close>

record CredentialManager_class =
  instance_attr :: "CredentialManager option"
  constructed :: nat

definition class_initial :: CredentialManager_class where
  "class_initial = \<lparr>instance_attr = None, constructed = 0\<rparr>"

text \<open>\<open>get_instance\<close>; the argument is \<open>None\<close> when the caller omits it.\<close>

definition get_instance ::
  "environ \<Rightarrow> policy_arg option \<Rightarrow> CredentialManager_class \<Rightarrow>
   CredentialManager_class \<times> CredentialManager" where
  "get_instance getenv use_cc_config_arg cls =
     (let use_cc_config = (case use_cc_config_arg of None \<Rightarrow> Member PROBE | Some a \<Rightarrow> a)
      in case instance_attr cls of
           None \<Rightarrow>
             (let inst = CredentialManager_init (constructed cls) getenv use_cc_config
              in (\<lparr>instance_attr = Some inst, constructed = Suc (constructed cls)\<rparr>, inst))
         | Some inst \<Rightarrow> (cls, inst))"

text \<open>
  A run of the process: a sequence of \<open>get_instance\<close> calls, each with the environment of
  that moment and its argument. The result is the final class state and the instances
  returned, in call order.
\<close>

fun get_instance_calls ::
  "(environ \<times> policy_arg option) list \<Rightarrow> CredentialManager_class \<Rightarrow>
   CredentialManager_class \<times> CredentialManager list" where
  "get_instance_calls [] cls = (cls, [])"
| "get_instance_calls ((getenv, a) # calls) cls =
     (let (cls', inst) = get_instance getenv a cls;
          (cls'', insts) = get_instance_calls calls cls'
      in (cls'', inst # insts))"


section \<open>Release manifests and configuration\<close>

text \<open>
  Modelled from the spec: the records of \<open>glci.model\<close> that the sources read.
  \<open>S3_ReleaseFile\<close> is an entry \<open>{name, s3_bucket_name, s3_key}\<close> of a manifest's \<open>paths\<close>;
  \<open>logs\<close> of a manifest is absent, a structured \<open>S3_ReleaseFile\<close>, or (legacy) a bare
  key string; \<open>CicdCfg\<close> is restricted to the attributes read here. Their declarations are
  not part of the sources.
\<close>

record S3_ReleaseFile =
  rf_name :: string
  rf_s3_bucket_name :: string
  rf_s3_key :: string

datatype logs_value = Logs_none | Logs_file S3_ReleaseFile | Logs_key string

record OnlineReleaseManifest =
  m_platform :: string
  m_paths :: "S3_ReleaseFile list"
  m_logs :: logs_value

record CicdCfg =
  build_aws_cfg_name :: string
  build_s3_bucket_name :: string
  publish_azure_shared_gallery_cfg_name :: "string option"


section \<open>ci/promote.py\<close>

text \<open>
  The per-platform routines of the module. Each delegates to a provider library that is not
  part of the sources, so what a call does is given by the host: \<open>providers r release cfg\<close>
  is the value returned or the exception raised by routine \<open>r\<close>.
\<close>

datatype routine =
    publish_alicloud_image
  | clean_alicloud_image
  | publish_aws_image
  | cleanup_aws
  | publish_gcp_image
  | publish_azure_shared_image_gallery
  | publish_azure_image
  | publish_openstack_image
  | cleanup_openstack_image
  | publish_oci_image

type_synonym providers =
  "routine \<Rightarrow> OnlineReleaseManifest \<Rightarrow> CicdCfg \<Rightarrow> error + OnlineReleaseManifest"

datatype promote_event =
    Logger_info string
  | Logger_warning string
  | Traceback_print_exc error
  | Call routine OnlineReleaseManifest CicdCfg

text \<open>Lines 62--85: the pair \<open>(publish_function, cleanup_function)\<close> chosen for a release.\<close>

definition select_functions ::
  "OnlineReleaseManifest \<Rightarrow> CicdCfg \<Rightarrow> (routine \<times> routine option) option" where
  "select_functions release cicd_cfg =
     (if m_platform release = ''ali'' then Some (publish_alicloud_image, Some clean_alicloud_image)
      else if m_platform release = ''aws'' then Some (publish_aws_image, Some cleanup_aws)
      else if m_platform release = ''gcp'' then Some (publish_gcp_image, None)
      else if m_platform release = ''azure'' then
        (if truthy (publish_azure_shared_gallery_cfg_name cicd_cfg)
         then Some (publish_azure_shared_image_gallery, None)
         else Some (publish_azure_image, None))
      else if m_platform release = ''openstack'' then
        Some (publish_openstack_image, Some cleanup_openstack_image)
      else if m_platform release = ''oci'' then Some (publish_oci_image, None)
      else None)"

definition publish_image ::
  "providers \<Rightarrow> OnlineReleaseManifest \<Rightarrow> CicdCfg \<Rightarrow>
   promote_event list \<times> (error + OnlineReleaseManifest)" where
  "publish_image providers release cicd_cfg =
     (let started =
            [Logger_info (''running release for release.platform='' @ repr_str (m_platform release))]
      in case select_functions release cicd_cfg of
           None \<Rightarrow>
             (started @
              [Logger_warning (''do not know how to publish release.platform=''
                 @ repr_str (m_platform release) @ '', yet'')],
              Inr release)
         | Some (publish_function, cleanup_function) \<Rightarrow>
             (case providers publish_function release cicd_cfg of
                Inr published \<Rightarrow> (started @ [Call publish_function release cicd_cfg], Inr published)
              | Inl e \<Rightarrow>
                  (let failed =
                         started @ [Call publish_function release cicd_cfg, Traceback_print_exc e]
                   in case cleanup_function of
                        Some cleanup \<Rightarrow>
                          (case providers cleanup release cicd_cfg of
                             Inl e' \<Rightarrow> (failed @ [Call cleanup release cicd_cfg], Inl e')
                           | Inr _ \<Rightarrow> (failed @ [Call cleanup release cicd_cfg], Inl e))
                      | None \<Rightarrow>
                          (failed @
                           [Logger_warning (''do not know how to cleanup release.platform=''
                              @ repr_str (m_platform release))],
                           Inl e))))"


section \<open>.cicd-cli.py\<close>

subsection \<open>Library functions: the version pattern, \<open>int\<close> and \<open>str\<close>\<close>

text \<open>
  Among the code points below 256 the decimal digits, for \<open>\d\<close> and for \<open>int\<close>, are \<open>0\<close>..\<open>9\<close>,
  and the white space that \<open>int\<close> skips is the six ASCII white-space characters, the next-line
  character (133) and the no-break space (160).
\<close>

definition digit_val :: "char \<Rightarrow> nat option" where
  "digit_val c =
     (let n = (of_char c :: nat) in if 48 \<le> n \<and> n \<le> 57 then Some (n - 48) else None)"

definition is_digit :: "char \<Rightarrow> bool" where
  "is_digit c = (digit_val c \<noteq> None)"

definition is_space :: "char \<Rightarrow> bool" where
  "is_space c =
     (c \<in> set [CHR '' '', CHR 0x09, CHR 0x0A, CHR 0x0B, CHR 0x0C, CHR 0x0D, CHR 0x85, CHR 0xA0])"

text \<open>
  \<open>re.compile(r'^[\d\.]+$').match(s)\<close>: one or more digits and dots up to the end of the
  string; \<open>$\<close> also matches just before a newline that ends the string.
\<close>

definition pattern_match :: "string \<Rightarrow> bool" where
  "pattern_match s =
     (let body = takeWhile (\<lambda>c. is_digit c \<or> c = CHR ''.'') s;
          rest = dropWhile (\<lambda>c. is_digit c \<or> c = CHR ''.'') s
      in body \<noteq> [] \<and> (rest = [] \<or> rest = ''\<newline>''))"

text \<open>\<open>s.split('.')[0]\<close>: the text before the first dot.\<close>

definition split_dot_first :: "string \<Rightarrow> string" where
  "split_dot_first s = takeWhile (\<lambda>c. c \<noteq> CHR ''.'') s"

text \<open>
  \<open>str(n)\<close> of an integer, as \<open>f'{parsed_epoch}'\<close> formats it. The interpreter refuses a
  conversion between \<open>int\<close> and \<open>str\<close> of more than \<open>sys.get_int_max_str_digits()\<close> digits, 4300
  unless the process changes it.
\<close>

fun nat_digits :: "nat \<Rightarrow> string" where
  "nat_digits n =
     (if n < 10 then [char_of (48 + n)]
      else nat_digits (n div 10) @ [char_of (48 + n mod 10)])"

declare nat_digits.simps [simp del]

definition str_of_int :: "int \<Rightarrow> string" where
  "str_of_int i = (if i < 0 then CHR ''-'' # nat_digits (nat (- i)) else nat_digits (nat i))"

definition int_max_str_digits :: nat where
  "int_max_str_digits = 4300"

definition py_str :: "int \<Rightarrow> error + string" where
  "py_str i =
     (if int_max_str_digits < length (nat_digits (nat \<bar>i\<bar>))
      then Inl (ValueError (''Exceeds the limit (4300 digits) for integer string conversion; ''
                  @ ''use sys.set_int_max_str_digits() to increase the limit''))
      else Inr (str_of_int i))"

text \<open>
  \<open>int(s)\<close> in base 10: white space is skipped at both ends, a sign may come first, then
  the longest run of digits and underscores is read. The run must be digits separated by
  single underscores, must not hold more digits than the limit, and must reach the end;
  these are checked in this order. The message of an invalid literal shows at most 200
  characters of \<open>repr(s)\<close>.
\<close>

fun valid_digits :: "string \<Rightarrow> bool" where
  "valid_digits [] = False"
| "valid_digits [c] = is_digit c"
| "valid_digits (c # d # r) =
     (is_digit c \<and> (if d = CHR ''_'' then valid_digits r else valid_digits (d # r)))"

definition digits_value :: "string \<Rightarrow> nat" where
  "digits_value s = foldl (\<lambda>acc c. 10 * acc + the (digit_val c)) 0 (filter is_digit s)"

definition strip :: "string \<Rightarrow> string" where
  "strip s = rev (dropWhile is_space (rev (dropWhile is_space s)))"

definition py_int :: "string \<Rightarrow> error + int" where
  "py_int s =
     (let t = strip s;
          (negative, body) =
            (case t of
               [] \<Rightarrow> (False, [])
             | c # r \<Rightarrow>
                 if c = CHR ''-'' then (True, r)
                 else if c = CHR ''+'' then (False, r)
                 else (False, t));
          run = takeWhile (\<lambda>c. is_digit c \<or> c = CHR ''_'') body;
          rest = dropWhile (\<lambda>c. is_digit c \<or> c = CHR ''_'') body;
          digits = length (filter is_digit run);
          invalid = ValueError (''invalid literal for int() with base 10: ''
                                  @ take 200 (repr_str s))
      in if valid_digits run then
           (if int_max_str_digits < digits then
              Inl (ValueError (''Exceeds the limit (4300 digits) for integer string conversion: ''
                     @ ''value has '' @ nat_digits digits
                     @ '' digits; use sys.set_int_max_str_digits() to increase the limit''))
            else if rest = [] then
              Inr (if negative then - int (digits_value run) else int (digits_value run))
            else Inl invalid)
         else Inl invalid)"

subsection \<open>Events and outcomes of a command\<close>

text \<open>
  What a command does to the outside: lines printed, the S3 download (configuration name,
  bucket, key, target file), files closed and removed, the manifest dumped as YAML.
  \<open>Print_used_args\<close> stands for the lines of \<open>_print_used_args\<close>, of which it keeps the
  version and the epoch.
\<close>

datatype cli_event =
    Print string
  | Print_used_args string int
  | S3_download_file string string string string
  | Close_file string
  | Remove_file string
  | Yaml_dump OnlineReleaseManifest "string option"

text \<open>How a function call ends: it returns a value, calls \<open>sys.exit\<close>, or raises.\<close>

datatype 'a outcome = Return 'a | SysExit int | Raise error

text \<open>
  The exit status of the interpreter running \<open>main()\<close> as its last statement: 0 when the call
  returns (its value is discarded), the argument of \<open>sys.exit\<close>, 1 for an uncaught exception.
\<close>

definition exit_status :: "'a outcome \<Rightarrow> int" where
  "exit_status out = (case out of Return _ \<Rightarrow> 0 | SysExit n \<Rightarrow> n | Raise _ \<Rightarrow> 1)"

subsection \<open>\<open>_fix_version\<close>\<close>

text \<open>
  \<open>workingtree_version\<close> is the value of \<open>glci.model._parse_version_from_workingtree()\<close>,
  which is not part of the sources.
\<close>

definition fix_version :: "string \<Rightarrow> string \<Rightarrow> int \<Rightarrow> cli_event list \<times> (error + string)" where
  "fix_version workingtree_version parsed_version parsed_epoch =
     (let is_proper_version = pattern_match parsed_version;
          (evs, resolved) =
            (if parsed_version \<noteq> workingtree_version then
               (if \<not> is_proper_version
                then [Print (''>>> WARNING: '' @ parsed_version @ '' is not a semver version! <<<'')]
                else [],
                Inr parsed_version)
             else if is_proper_version then ([], Inr parsed_version)
             else ([], case py_str parsed_epoch of
                         Inl e \<Rightarrow> Inl e
                       | Inr epoch \<Rightarrow> Inr (epoch @ ''.0'')))
      in case resolved of
           Inl e \<Rightarrow> (evs, Inl e)
         | Inr result \<Rightarrow>
             (case py_int (split_dot_first result) of
                Inl e \<Rightarrow> (evs, Inl e)
              | Inr leading \<Rightarrow>
                  if parsed_epoch \<noteq> leading then
                    (case py_str parsed_epoch of
                       Inl e \<Rightarrow> (evs, Inl e)
                     | Inr epoch \<Rightarrow>
                         (evs @ [Print (''>>> WARNING: version '' @ result
                                          @ '' does not match epoch '' @ epoch @ ''! <<<'')],
                          Inr result))
                  else (evs, Inr result)))"

subsection \<open>Downloading an artifact of a manifest\<close>

text \<open>
  The host of a command: \<open>s3_download_file cfg bucket key file\<close> is the exception raised by
  the download through the session of configuration \<open>cfg\<close>, or \<open>None\<close> when it succeeds.
\<close>

type_synonym s3_host = "string \<Rightarrow> string \<Rightarrow> string \<Rightarrow> string \<Rightarrow> error option"

definition download_obj_to_file ::
  "s3_host \<Rightarrow> CicdCfg \<Rightarrow> string \<Rightarrow> string \<Rightarrow> string \<Rightarrow> cli_event list \<times> (error + int)" where
  "download_obj_to_file s3 cicd_cfg bucket_name s3_key file_name =
     ([S3_download_file (build_aws_cfg_name cicd_cfg) bucket_name s3_key file_name],
      case s3 (build_aws_cfg_name cicd_cfg) bucket_name s3_key file_name of
        Some e \<Rightarrow> Inl e
      | None \<Rightarrow> Inr 0)"

text \<open>Lines 192--198: the tail shared by both branches of \<open>_download_release_artifact\<close>.\<close>

definition download_tail ::
  "s3_host \<Rightarrow> CicdCfg \<Rightarrow> string \<Rightarrow> string \<Rightarrow> string \<Rightarrow> cli_event list \<times> (error + int)" where
  "download_tail s3 cicd_cfg outfile s3_bucket s3_key =
     (let (evs, r) = download_obj_to_file s3 cicd_cfg s3_bucket s3_key outfile
      in (Print (''Downloading object with S3-key: '' @ s3_key @ '' from bucket '' @ s3_bucket
                   @ '', to '' @ outfile) # evs, r))"

definition download_release_artifact ::
  "s3_host \<Rightarrow> CicdCfg \<Rightarrow> string \<Rightarrow> string \<Rightarrow> OnlineReleaseManifest \<Rightarrow>
   cli_event list \<times> (error + int)" where
  "download_release_artifact s3 cicd_cfg name outfile manifest =
     (if name = ''log'' \<or> name = ''logs'' then
        (case m_logs manifest of
           Logs_none \<Rightarrow> ([Print ''Error: No logs attached to release manifest''], Inr 1)
         | Logs_file log_obj \<Rightarrow>
             download_tail s3 cicd_cfg outfile (rf_s3_bucket_name log_obj) (rf_s3_key log_obj)
         | Logs_key log_obj \<Rightarrow>
             if log_obj = [] then ([Print ''Error: No logs attached to release manifest''], Inr 1)
             else download_tail s3 cicd_cfg outfile (build_s3_bucket_name cicd_cfg) log_obj)
      else
        (case filter (\<lambda>entry. rf_name entry = name) (m_paths manifest) of
           [] \<Rightarrow> ([Print (''Error: No object in release manifest with name '' @ name)], Inr 1)
         | first # others \<Rightarrow>
             (let warning =
                    (if others \<noteq> []
                     then [Print (''Warning.: Found more than one file with name '' @ name
                                    @ '', using first one'')]
                     else []);
                  (evs, r) =
                    download_tail s3 cicd_cfg outfile (rf_s3_bucket_name first) (rf_s3_key first)
              in (warning @ evs, r))))"

subsection \<open>\<open>retrieve_single_manifest\<close> and \<open>main\<close>\<close>

text \<open>
  The result of \<open>parser.parse_args()\<close>, restricted to what the command body reads.
  \<open>pa_outfile\<close> is \<open>None\<close> for \<open>sys.stdout\<close> and the name of the file opened for writing
  otherwise.
\<close>

record parsed_args =
  pa_committish :: string
  pa_platform :: string
  pa_version :: string
  pa_gardenlinux_epoch :: int
  pa_cicd_cfg :: string
  pa_download :: "string option"
  pa_outfile :: "string option"

text \<open>
  What the command reads from outside the sources: the working-tree version, the lookup
  \<open>glci.util.find_release\<close> applied to the release identifier built from the parsed
  arguments, \<open>glci.util.cicd_cfg\<close>, \<open>os.path.exists\<close>, the S3 service, and the other symbols
  of the module that \<open>main\<close> can dispatch to (with what calling them does).
\<close>

record cli_host =
  host_workingtree_version :: string
  host_find_release :: "parsed_args \<Rightarrow> OnlineReleaseManifest option"
  host_cicd_cfg :: "string \<Rightarrow> CicdCfg"
  host_path_exists :: "string \<Rightarrow> bool"
  host_s3 :: s3_host
  host_other_symbols :: "string \<Rightarrow> (cli_event list \<times> int option outcome) option"

definition retrieve_single_manifest ::
  "cli_host \<Rightarrow> parsed_args \<Rightarrow> cli_event list \<times> int option outcome" where
  "retrieve_single_manifest host parsed0 =
     (case fix_version (host_workingtree_version host) (pa_version parsed0)
             (pa_gardenlinux_epoch parsed0) of
        (evs, Inl e) \<Rightarrow> (evs, Raise e)
      | (evs, Inr version) \<Rightarrow>
          (let parsed = parsed0\<lparr>pa_version := version\<rparr>;
               evs1 = evs @ [Print_used_args (pa_version parsed) (pa_gardenlinux_epoch parsed)]
           in case host_find_release host parsed of
                None \<Rightarrow> (evs1 @ [Print ''ERROR: no such release found''], SysExit 1)
              | Some release \<Rightarrow>
                  if truthy (pa_download parsed) then
                    (let download = the (pa_download parsed);
                         (evs2, outfile_name) =
                           (case pa_outfile parsed of
                              None \<Rightarrow>
                                ([], if download = ''log'' \<or> download = ''logs''
                                     then ''build_log.zip'' else download)
                            | Some n \<Rightarrow>
                                (Close_file n # (if host_path_exists host n then [Remove_file n] else []),
                                 n));
                         (evs3, r) =
                           download_release_artifact (host_s3 host)
                             (host_cicd_cfg host (pa_cicd_cfg parsed)) download outfile_name release
                     in (evs1 @ evs2 @ evs3,
                         case r of Inl e \<Rightarrow> Raise e | Inr res_code \<Rightarrow> Return (Some res_code)))
                  else (evs1 @ [Yaml_dump release (pa_outfile parsed)], Return None)))"

text \<open>
  \<open>main\<close>: \<open>argv0\<close> is \<open>sys.argv[0]\<close>. The symbol of the module named by the command is
  called and the value it returns is dropped.
\<close>

definition module_symbols ::
  "cli_host \<Rightarrow> parsed_args \<Rightarrow> string \<Rightarrow> (cli_event list \<times> int option outcome) option" where
  "module_symbols host parsed cmd_name =
     (if cmd_name = ''retrieve_single_manifest'' then Some (retrieve_single_manifest host parsed)
      else host_other_symbols host cmd_name)"

definition main :: "cli_host \<Rightarrow> parsed_args \<Rightarrow> string \<Rightarrow> cli_event list \<times> unit outcome" where
  "main host parsed argv0 =
     (let cmd_name = replace CHR ''-'' CHR ''_'' (basename argv0)
      in case module_symbols host parsed cmd_name of
           None \<Rightarrow> ([Print (''ERROR: '' @ cmd_name @ '' is not defined'')], SysExit 1)
         | Some (evs, out) \<Rightarrow>
             (evs, case out of Return _ \<Rightarrow> Return () | SysExit n \<Rightarrow> SysExit n | Raise e \<Rightarrow> Raise e))"


section \<open>The specification's wording, for comparison\<close>

text \<open>
  The specification describes the shell invocation line as the callable followed by every
  parameter placeholder and then every result placeholder.
\<close>

definition spec_shell_invocation :: "string \<Rightarrow> NamedParam list \<Rightarrow> NamedParam list \<Rightarrow> string" where
  "spec_shell_invocation callable params results =
     callable @ '' '' @ join '' '' (map shell_param_arg params @ map shell_result_arg results)"

text \<open>
  The specification describes the rendered script as the concatenation of the non-empty
  lines among shebang, preamble, script body and invocation line.
\<close>

definition spec_rendered_script :: "string list \<Rightarrow> string" where
  "spec_rendered_script lines = join ''\<newline>'' (filter (\<lambda>l. l \<noteq> []) lines)"


section \<open>Concrete inputs\<close>

definition no_files :: filesystem where
  "no_files p = None"

definition example_files :: filesystem where
  "example_files p =
     (if p = ''/glci/ci/steps/promote_step.py'' then Some ''def promote_single_step(**kw): pass''
      else None)"

definition param_foo_bar :: NamedParam where
  "param_foo_bar = \<lparr>np_name = ''foo-bar'', np_default = None\<rparr>"

definition param_baz :: NamedParam where
  "param_baz = \<lparr>np_name = ''baz'', np_default = None\<rparr>"

definition result_out :: NamedParam where
  "result_out = \<lparr>np_name = ''out'', np_default = None\<rparr>"

definition param_flavour_set_name :: NamedParam where
  "param_flavour_set_name = \<lparr>np_name = ''flavour-set-name'', np_default = None\<rparr>"

definition result_manifest_set_key :: NamedParam where
  "result_manifest_set_key = \<lparr>np_name = ''manifest-set-key'', np_default = None\<rparr>"

definition param_repo_dir :: NamedParam where
  "param_repo_dir = \<lparr>np_name = ''repo_dir'', np_default = Some ''/workspace/glci''\<rparr>"

definition example_params :: AllParams where
  "example_params =
     \<lparr>params_architecture = \<lparr>np_name = ''architecture'', np_default = Some ''amd64''\<rparr>,
      params_cicd_cfg_name = \<lparr>np_name = ''cicd_cfg_name'', np_default = Some ''default''\<rparr>,
      params_gardenlinux_committish = \<lparr>np_name = ''gardenlinux_committish'', np_default = None\<rparr>,
      params_gardenlinux_epoch = \<lparr>np_name = ''gardenlinux_epoch'', np_default = None\<rparr>,
      params_modifiers = \<lparr>np_name = ''modifiers'', np_default = None\<rparr>,
      params_platform = \<lparr>np_name = ''platform'', np_default = None\<rparr>,
      params_build_targets = \<lparr>np_name = ''build_targets'', np_default = Some ''build''\<rparr>,
      params_version = \<lparr>np_name = ''version'', np_default = None\<rparr>,
      params_gardenlinux_repo_dir =
        \<lparr>np_name = ''gardenlinux_repo_dir'', np_default = Some ''/workspace/gardenlinux_git''\<rparr>,
      params_repo_dir = param_repo_dir\<rparr>"

definition empty_heap :: heap where
  "empty_heap a = []"

definition secrets_environ :: environ where
  "secrets_environ v =
     (if v = ''SECRETS_SERVER_ENDPOINT'' then Some ''https://secrets.example''
      else if v = ''SECRETS_SERVER_CONCOURSE_CFG_NAME'' then Some ''concourse''
      else None)"

definition aws_release :: OnlineReleaseManifest where
  "aws_release = \<lparr>m_platform = ''aws'', m_paths = [], m_logs = Logs_none\<rparr>"

definition example_cicd_cfg :: CicdCfg where
  "example_cicd_cfg =
     \<lparr>build_aws_cfg_name = ''gardenlinux'', build_s3_bucket_name = ''gardenlinux-build'',
      publish_azure_shared_gallery_cfg_name = None\<rparr>"

text \<open>Two hosts whose publish routines raise; in the second the AWS cleanup raises as well.\<close>

definition publish_fails :: providers where
  "publish_fails r release cicd_cfg =
     (if r = cleanup_aws then Inr release else Inl (Exception ''publish failed''))"

definition publish_and_cleanup_fail :: providers where
  "publish_and_cleanup_fail r release cicd_cfg =
     (if r = cleanup_aws then Inl (Exception ''cleanup failed'')
      else Inl (Exception ''publish failed''))"

text \<open>A manifest with the path entries \<open>a\<close>, \<open>a\<close>, \<open>b\<close> and a host that finds it.\<close>

definition manifest_a_a_b :: OnlineReleaseManifest where
  "manifest_a_a_b =
     \<lparr>m_platform = ''aws'',
      m_paths =
        [\<lparr>rf_name = ''a'', rf_s3_bucket_name = ''bucket-1'', rf_s3_key = ''objects/a1''\<rparr>,
         \<lparr>rf_name = ''a'', rf_s3_bucket_name = ''bucket-2'', rf_s3_key = ''objects/a2''\<rparr>,
         \<lparr>rf_name = ''b'', rf_s3_bucket_name = ''bucket-1'', rf_s3_key = ''objects/b''\<rparr>],
      m_logs = Logs_none\<rparr>"

definition s3_available :: s3_host where
  "s3_available cfg bucket key file = None"

definition example_host :: cli_host where
  "example_host =
     \<lparr>host_workingtree_version = ''318.9'',
      host_find_release = (\<lambda>parsed. Some manifest_a_a_b),
      host_cicd_cfg = (\<lambda>cfg_name. example_cicd_cfg),
      host_path_exists = (\<lambda>p. False),
      host_s3 = s3_available,
      host_other_symbols = (\<lambda>cmd_name. None)\<rparr>"

text \<open>
  The arguments of \<open>retrieve-single-manifest --platform=aws --download=<artifact>\<close> in a
  working tree of version 318.9 and epoch 318.
\<close>

definition download_args :: "string \<Rightarrow> parsed_args" where
  "download_args artifact =
     \<lparr>pa_committish = ''71ceb0'', pa_platform = ''aws'', pa_version = ''318.9'',
      pa_gardenlinux_epoch = 318, pa_cicd_cfg = ''default'', pa_download = Some artifact,
      pa_outfile = None\<rparr>"


section \<open>Properties of the step script renderer\<close>

lemma join_Cons: "ys \<noteq> [] \<Longrightarrow> join sep (x # ys) = x @ sep @ join sep ys"
  by (cases ys) simp_all

lemma sep_join_concat: "rs \<noteq> [] \<Longrightarrow> sep @ join sep rs = concat (map (\<lambda>r. sep @ r) rs)"
proof (induction rs)
  case Nil
  then show ?case by simp
next
  case (Cons r rs)
  show ?case
  proof (cases "rs = []")
    case True
    then show ?thesis by simp
  next
    case False
    with Cons.IH show ?thesis by (simp add: join_Cons)
  qed
qed

lemma join_append:
  "xs \<noteq> [] \<Longrightarrow> ys \<noteq> [] \<Longrightarrow> join sep (xs @ ys) = join sep xs @ sep @ join sep ys"
proof (induction xs)
  case Nil
  then show ?case by simp
next
  case (Cons x xs)
  show ?case
  proof (cases "xs = []")
    case True
    with Cons.prems show ?thesis by (simp add: join_Cons)
  next
    case False
    with Cons show ?thesis by (simp add: join_Cons)
  qed
qed

lemma hd_join: "xs \<noteq> [] \<Longrightarrow> hd xs \<noteq> [] \<Longrightarrow> hd (join sep xs) = hd (hd xs)"
  by (induction sep xs rule: join.induct) simp_all

lemmas render_defs =
  task_step_script_def load_script_def truthy_def truthy_list_def shebang_of_def preamble_of_def
  callable_str_of_def args_of_def format_str_def shell_param_arg_def shell_result_arg_def
  python_param_arg_def python_result_arg_def extend_python_path_snippet_def scripts_dir_def
  basename_def replace_def

text \<open>
  The script body is available when exactly one source is given: a readable file, or a
  non-empty inline text.
\<close>

lemma load_script_cases:
  assumes "(path = Some p \<and> p \<noteq> [] \<and> \<not> truthy inline_script \<and> fs p = Some script)
           \<or> (\<not> truthy path \<and> inline_script = Some script \<and> script \<noteq> [])"
  shows "\<not> (truthy path \<and> truthy inline_script)"
    and "snd (load_script fs path inline_script) = Inr (Some script)"
  using assms by (auto simp: load_script_def truthy_def)

lemma task_step_script_rendered:
  assumes "(path = Some p \<and> p \<noteq> [] \<and> \<not> truthy inline_script \<and> fs p = Some script)
           \<or> (\<not> truthy path \<and> inline_script = Some script \<and> script \<noteq> [])"
  shows "snd (task_step_script own_dir fs script_type callable params results repo_path_param path
             inline_script)
         = Inr (join ''\<newline>''
                  ([shebang_of script_type, preamble_of own_dir script_type repo_path_param, script]
                   @ (if truthy callable
                      then [callable_str_of script_type callable params results] else [])))"
proof -
  obtain evs where "load_script fs path inline_script = (evs, Inr (Some script))"
    using load_script_cases(2)[where fs=fs and p=p and script=script, OF assms]
    by (cases "load_script fs path inline_script") simp
  then show ?thesis
    using load_script_cases(1)[where fs=fs and p=p and script=script, OF assms]
    by (simp add: task_step_script_def)
qed

text \<open>Without a script source the function fails when it builds its result.\<close>

lemma task_step_script_unbound:
  assumes "\<not> truthy path" and "\<not> truthy inline_script"
  shows "task_step_script own_dir fs script_type callable params results repo_path_param path
           inline_script
         = ([], Inl (UnboundLocalError ''script''))"
  using assms by (simp add: task_step_script_def load_script_def)

text \<open>The shell branch: with results, the parameters are not part of the invocation line.\<close>

lemma shell_invocation_with_results:
  "results \<noteq> [] \<Longrightarrow>
   callable_str_of BOURNE_SHELL (Some c) params (Some results)
     = c @ ''  '' @ join '' '' (map shell_result_arg results)"
  by (simp add: callable_str_of_def args_of_def truthy_list_def format_str_def)

lemma shell_invocation_without_results:
  "\<not> truthy_list results \<Longrightarrow>
   callable_str_of BOURNE_SHELL (Some c) params results
     = spec_shell_invocation c params []"
  by (simp add: callable_str_of_def args_of_def format_str_def spec_shell_invocation_def)

text \<open>
  So with results the rendered line is never the line the specification describes: after the
  callable and one blank comes a second blank, where the described line has the quote
  that opens the first placeholder.
\<close>

lemma shell_args_quoted:
  assumes "a \<in> set (map shell_param_arg params @ map shell_result_arg results)"
  shows "a \<noteq> [] \<and> hd a = CHR 0x22"
  using assms by (auto simp: shell_param_arg_def shell_result_arg_def)

lemma shell_invocation_differs_from_spec:
  assumes "results \<noteq> []"
  shows "callable_str_of BOURNE_SHELL (Some c) params (Some results)
         \<noteq> spec_shell_invocation c params results"
proof
  let ?args = "map shell_param_arg params @ map shell_result_arg results"
  assume same: "callable_str_of BOURNE_SHELL (Some c) params (Some results)
                = spec_shell_invocation c params results"
  have nonempty: "?args \<noteq> []"
    using assms by simp
  then have "hd ?args \<in> set ?args"
    by (rule hd_in_set)
  then have quoted: "hd ?args \<noteq> [] \<and> hd (hd ?args) = CHR 0x22"
    by (rule shell_args_quoted)
  have "'' '' @ join '' '' (map shell_result_arg results) = join '' '' ?args"
    using same assms
    by (simp add: shell_invocation_with_results spec_shell_invocation_def)
  then have "hd (join '' '' ?args) = CHR '' ''"
    by (metis append_Cons list.sel(1))
  moreover have "hd (join '' '' ?args) = CHR 0x22"
    using nonempty quoted by (simp add: hd_join)
  ultimately show False
    by simp
qed

text \<open>The embedded-interpreter branch.\<close>

lemma python_args_concat:
  "args_of PYTHON3 params results
   = join '','' (map python_param_arg params)
     @ concat (map (\<lambda>r. '','' @ python_result_arg r) (case results of None \<Rightarrow> [] | Some rs \<Rightarrow> rs))"
proof (cases "truthy_list results")
  case True
  then obtain rs where rs: "results = Some rs" "rs \<noteq> []"
    by (auto simp: truthy_list_def split: option.splits)
  have "'','' @ join '','' (map python_result_arg rs)
        = concat (map (\<lambda>r. '','' @ r) (map python_result_arg rs))"
    using rs(2) by (intro sep_join_concat) simp
  then show ?thesis using rs by (simp add: args_of_def truthy_list_def comp_def)
next
  case False
  then show ?thesis by (auto simp: args_of_def truthy_list_def split: option.splits)
qed

lemma python_args_joined:
  assumes "params \<noteq> []"
  shows "args_of PYTHON3 params results
         = join '','' (map python_param_arg params
                       @ map python_result_arg (case results of None \<Rightarrow> [] | Some rs \<Rightarrow> rs))"
proof (cases "truthy_list results")
  case True
  then obtain rs where rs: "results = Some rs" "rs \<noteq> []"
    by (auto simp: truthy_list_def split: option.splits)
  show ?thesis using rs assms by (simp add: args_of_def truthy_list_def join_append)
next
  case False
  then show ?thesis by (auto simp: args_of_def truthy_list_def split: option.splits)
qed

lemma preamble_iff:
  "(preamble_of own_dir PYTHON3 repo_path_param \<noteq> []) = (repo_path_param \<noteq> None)"
  by (cases repo_path_param) (simp_all add: preamble_of_def)

text \<open>
  Claim C5 (shell kind, a callable, a non-empty result list: the invocation line is the
  callable, then every parameter placeholder, then every result placeholder). The source
  assigns the result placeholders to \<open>args\<close> instead of appending them, so the parameters are
  lost: for the callable \<open>run\<close>, the parameters \<open>foo-bar\<close> and \<open>baz\<close> and the result \<open>out\<close> the
  rendered line holds the result placeholder only, after two blanks, where the claimed
  line lists both parameters first.
\<close>

theorem shell_invocation_drops_params:
  \<open>task_step_script ''/glci/ci'' no_files BOURNE_SHELL (Some ''run'') [param_foo_bar, param_baz]
       (Some [result_out]) None None (Some ''echo hi'')
     = ([], Inr ''#!/usr/bin/env bash\<newline>\<newline>echo hi\<newline>run  "$(results.out.path)"'')
   \<and> callable_str_of BOURNE_SHELL (Some ''run'') [param_foo_bar, param_baz] (Some [result_out])
     = ''run  "$(results.out.path)"''
   \<and> spec_shell_invocation ''run'' [param_foo_bar, param_baz] [result_out]
     = ''run "$(params.foo-bar)" "$(params.baz)" "$(results.out.path)"''\<close>
  by (simp add: render_defs param_foo_bar_def param_baz_def result_out_def
      spec_shell_invocation_def)

text \<open>
  Claim C6, as amended: whenever the script body is available, the rendered script is the
  newline-concatenation of shebang, preamble and script body, each kept even when empty,
  followed by the invocation line exactly when a non-empty callable name is given. So for the
  shell kind, and for the embedded-interpreter kind without a repository-path parameter,
  an empty line stands between the shebang and the script body; without a callable name no
  invocation line is appended.
\<close>

theorem rendered_script_lines:
  assumes "(path = Some p \<and> p \<noteq> [] \<and> \<not> truthy inline_script \<and> fs p = Some script)
           \<or> (\<not> truthy path \<and> inline_script = Some script \<and> script \<noteq> [])"
  shows "snd (task_step_script own_dir fs script_type callable params results repo_path_param path
             inline_script)
         = Inr (join ''\<newline>''
                  ([shebang_of script_type, preamble_of own_dir script_type repo_path_param, script]
                   @ (if truthy callable
                      then [callable_str_of script_type callable params results] else [])))
         \<and> (script_type = BOURNE_SHELL \<or> repo_path_param = None \<longrightarrow>
            snd (task_step_script own_dir fs script_type callable params results repo_path_param
                   path inline_script)
            = Inr (shebang_of script_type @ ''\<newline>\<newline>'' @ script
                   @ (if truthy callable
                      then ''\<newline>'' @ callable_str_of script_type callable params results
                      else [])))"
proof -
  have rendered:
    "snd (task_step_script own_dir fs script_type callable params results repo_path_param path
            inline_script)
     = Inr (join ''\<newline>''
              ([shebang_of script_type, preamble_of own_dir script_type repo_path_param, script]
               @ (if truthy callable
                  then [callable_str_of script_type callable params results] else [])))"
    using assms by (rule task_step_script_rendered[where fs=fs and p=p and script=script])
  have "preamble_of own_dir script_type repo_path_param = []"
    if "script_type = BOURNE_SHELL \<or> repo_path_param = None"
    using that by (auto simp: preamble_of_def split: ScriptType.splits)
  with rendered show ?thesis by simp
qed

text \<open>
  Witness: the shell kind with the inline body \<open>echo hi\<close> and the callable \<open>run\<close>; the second
  line of the output is empty.
\<close>

theorem rendered_script_lines_witness:
  "snd (task_step_script ''/glci/ci'' no_files BOURNE_SHELL (Some ''run'') [param_baz] None None None
          (Some ''echo hi''))
   = Inr (join ''\<newline>''
            [''#!/usr/bin/env bash'', [], ''echo hi'',
             callable_str_of BOURNE_SHELL (Some ''run'') [param_baz] None])"
proof -
  have source:
    "((None :: string option) = Some [] \<and> [] \<noteq> ([] :: string) \<and> \<not> truthy (Some ''echo hi'')
       \<and> no_files [] = Some ''echo hi'')
     \<or> (\<not> truthy None \<and> Some ''echo hi'' = Some ''echo hi'' \<and> ''echo hi'' \<noteq> [])"
    by (simp add: truthy_def)
  from rendered_script_lines[where fs=no_files and p="[]" and script="''echo hi''", OF source,
      of "''/glci/ci''" BOURNE_SHELL "Some ''run''" "[param_baz]" None None]
  show ?thesis by (simp add: truthy_def shebang_of_def preamble_of_def)
qed

text \<open>
  Counterexample to the claim as stated: for the shell kind the output is not the
  concatenation of the non-empty lines, since the empty preamble line is kept.
\<close>

theorem rendered_script_keeps_empty_preamble:
  "snd (task_step_script ''/glci/ci'' no_files BOURNE_SHELL (Some ''run'') [param_baz] None None None
          (Some ''echo hi''))
   \<noteq> Inr (spec_rendered_script
             [shebang_of BOURNE_SHELL, preamble_of ''/glci/ci'' BOURNE_SHELL None, ''echo hi'',
              callable_str_of BOURNE_SHELL (Some ''run'') [param_baz] None])"
  by (simp add: render_defs param_baz_def spec_rendered_script_def)

text \<open>
  Claim C7, as amended: when both a non-empty script path and a non-empty inline script
  body are given, the renderer raises \<open>ValueError\<close> and has performed no file I/O: no file
  was opened.
\<close>

theorem both_sources_rejected:
  assumes "path = Some p" and "p \<noteq> []" and "inline_script = Some s" and "s \<noteq> []"
  shows "task_step_script own_dir fs script_type callable params results repo_path_param path
           inline_script
         = ([], Inl (ValueError ''Either use path or inline_script but not both.''))"
  using assms by (simp add: task_step_script_def truthy_def)

text \<open>Witness: an existing script file together with an inline body.\<close>

theorem both_sources_rejected_witness:
  "task_step_script ''/glci/ci'' example_files PYTHON3 (Some ''promote_single_step'') [param_baz]
     None None (Some ''/glci/ci/steps/promote_step.py'') (Some ''pass'')
   = ([], Inl (ValueError ''Either use path or inline_script but not both.''))"
proof -
  have "''/glci/ci/steps/promote_step.py'' \<noteq> []" and "''pass'' \<noteq> []"
    by simp_all
  then show ?thesis
    by (rule both_sources_rejected[OF refl _ refl])
qed

text \<open>
  Counterexample to the claim as stated: a script path is given together with the inline
  body \<open>''\<close>. The test is on truthiness, so nothing is raised: the file is opened and its
  content rendered.
\<close>

theorem empty_inline_body_opens_file:
  \<open>task_step_script ''/glci/ci'' example_files PYTHON3 (Some ''promote_single_step'') [param_baz]
     None None (Some ''/glci/ci/steps/promote_step.py'') (Some [])
   = ([Open ''/glci/ci/steps/promote_step.py''],
      Inr (''#!/usr/bin/env python3\<newline>''
           @ ''\<newline>''
           @ ''def promote_single_step(**kw): pass\<newline>''
           @ ''promote_single_step(baz='$(params.baz)')''))\<close>
  by (simp add: render_defs example_files_def param_baz_def)

text \<open>The same holds for every path and every file system, and for an empty path.\<close>

lemma empty_inline_script_not_rejected:
  "p \<noteq> [] \<Longrightarrow>
   fst (task_step_script own_dir fs script_type callable params results repo_path_param (Some p)
          (Some [])) = [Open p]"
  by (simp add: task_step_script_def load_script_def truthy_def Let_def split: option.splits)

lemma empty_path_not_rejected:
  "s \<noteq> [] \<Longrightarrow>
   snd (task_step_script own_dir fs script_type None params results repo_path_param (Some [])
          (Some s))
   = Inr (join ''\<newline>'' [shebang_of script_type, preamble_of own_dir script_type repo_path_param, s])"
  by (simp add: task_step_script_def load_script_def truthy_def Let_def)

text \<open>
  Claim C8: for the embedded-interpreter kind with a callable name, the last line of the
  rendered script is the callable applied to the parameters, each passed as its name with
  every hyphen replaced by an underscore, \<open>='$(params.\<close>, its original name and \<open>)'\<close>, joined by
  commas in list order; each declared result is appended after a comma in the same form,
  with \<open>='$(results.\<close>, its original name and \<open>.path)'\<close>. With at least one parameter this is
  the comma-separated list of all parameter and result arguments. The second line is the
  search-path preamble, which names the repository-path parameter and is there if and only
  if that parameter is given; otherwise the line is empty.
\<close>

theorem python_invocation_line:
  assumes "callable = Some c" and "c \<noteq> []"
    and "(path = Some p \<and> p \<noteq> [] \<and> \<not> truthy inline_script \<and> fs p = Some script)
         \<or> (\<not> truthy path \<and> inline_script = Some script \<and> script \<noteq> [])"
  shows
    \<open>let underscored = map (\<lambda>ch. if ch = CHR ''-'' then CHR ''_'' else ch);
         param_arg = (\<lambda>param. underscored (np_name param) @ ''='$(params.'' @ np_name param
                                 @ '')'' @ [CHR 0x27]);
         result_arg = (\<lambda>result. underscored (np_name result) @ ''='$(results.''
                                   @ np_name result @ ''.path)'' @ [CHR 0x27]);
         declared = (case results of None \<Rightarrow> [] | Some rs \<Rightarrow> rs);
         preamble =
           (case repo_path_param of
              None \<Rightarrow> []
            | Some repo \<Rightarrow>
                ''import sys,os;sys.path.insert(1,os.path.abspath(os.path.join("$(params.''
                @ np_name repo @ '')","'' @ basename own_dir @ ''")))'');
         rendered = snd (task_step_script own_dir fs PYTHON3 callable params results
                           repo_path_param path inline_script)
     in rendered
        = Inr (join ''\<newline>''
                 [''#!/usr/bin/env python3'', preamble, script,
                  c @ ''('' @ join '','' (map param_arg params)
                    @ concat (map (\<lambda>result. '','' @ result_arg result) declared) @ '')''])
      \<and> (params \<noteq> [] \<longrightarrow>
           rendered
           = Inr (join ''\<newline>''
                    [''#!/usr/bin/env python3'', preamble, script,
                     c @ ''('' @ join '','' (map param_arg params @ map result_arg declared)
                       @ '')'']))
      \<and> ((preamble \<noteq> []) = (repo_path_param \<noteq> None))\<close>
proof -
  have rendered:
    "snd (task_step_script own_dir fs PYTHON3 callable params results repo_path_param path
            inline_script)
     = Inr (join ''\<newline>''
              [shebang_of PYTHON3, preamble_of own_dir PYTHON3 repo_path_param, script,
               callable_str_of PYTHON3 callable params results])"
    using assms(1,2)
      task_step_script_rendered[where fs=fs and p=p and script=script, OF assms(3)]
    by (simp add: truthy_def)
  have line: "callable_str_of PYTHON3 callable params results
              = c @ ''('' @ args_of PYTHON3 params results @ '')''"
    using assms(1) by (simp add: callable_str_of_def format_str_def)
  have preamble:
    \<open>preamble_of own_dir PYTHON3 repo_path_param
     = (case repo_path_param of
          None \<Rightarrow> []
        | Some repo \<Rightarrow>
            ''import sys,os;sys.path.insert(1,os.path.abspath(os.path.join("$(params.''
            @ np_name repo @ '')","'' @ basename own_dir @ ''")))'')\<close>
    by (simp add: preamble_of_def extend_python_path_snippet_def scripts_dir_def
        split: option.splits)
  have formats:
    \<open>python_param_arg
     = (\<lambda>param. map (\<lambda>ch. if ch = CHR ''-'' then CHR ''_'' else ch) (np_name param)
                  @ ''='$(params.'' @ np_name param @ '')'' @ [CHR 0x27])\<close>
    \<open>python_result_arg
     = (\<lambda>result. map (\<lambda>ch. if ch = CHR ''-'' then CHR ''_'' else ch) (np_name result)
                   @ ''='$(results.'' @ np_name result @ ''.path)'' @ [CHR 0x27])\<close>
    by (simp_all add: fun_eq_iff python_param_arg_def python_result_arg_def replace_def)
  show ?thesis
    unfolding Let_def
    using python_args_joined[of params results]
    by (simp add: rendered line python_args_concat preamble formats shebang_of_def
        split: option.splits)
qed

text \<open>
  Witness: two parameters, the first with two hyphens in its name, a result with hyphens in
  its name and the repository-path parameter \<open>repo_dir\<close>, rendered in full.
\<close>

theorem python_invocation_line_witness:
  \<open>snd (task_step_script ''/glci/ci'' no_files PYTHON3 (Some ''f'')
          [param_flavour_set_name, param_baz] (Some [result_manifest_set_key])
          (Some param_repo_dir) None (Some ''pass''))
   = Inr (''#!/usr/bin/env python3\<newline>''
          @ ''import sys,os;sys.path.insert(1,os.path.abspath(os.path.join("$(params.repo_dir)","ci")))\<newline>''
          @ ''pass\<newline>''
          @ ''f(flavour_set_name='$(params.flavour-set-name)',baz='$(params.baz)',''
          @ ''manifest_set_key='$(results.manifest-set-key.path)')'')\<close>
proof -
  have source:
    "((None :: string option) = Some [] \<and> [] \<noteq> ([] :: string) \<and> \<not> truthy (Some ''pass'')
       \<and> no_files [] = Some ''pass'')
     \<or> (\<not> truthy None \<and> Some ''pass'' = Some ''pass'' \<and> ''pass'' \<noteq> [])"
    by (simp add: truthy_def)
  have callable: "''f'' \<noteq> []"
    by simp
  from python_invocation_line[where fs=no_files and p="[]" and script="''pass''"
        and own_dir="''/glci/ci''" and params="[param_flavour_set_name, param_baz]"
        and results="Some [result_manifest_set_key]" and repo_path_param="Some param_repo_dir",
      OF refl callable source]
  show ?thesis
    by (simp add: Let_def basename_def param_flavour_set_name_def param_baz_def
        result_manifest_set_key_def param_repo_dir_def)
qed

text \<open>
  The edge of the embedded-interpreter branch: results without parameters give an
  argument list that starts with a comma.
\<close>

lemma python_invocation_without_params:
  \<open>callable_str_of PYTHON3 (Some ''f'') [] (Some [result_out]) = ''f(,out='$(results.out.path)')''\<close>
  by (simp add: render_defs result_out_def)

section \<open>Properties of the step builder \<open>promote_single_step\<close>\<close>

text \<open>
  Claim C10: the default \<open>env_vars\<close> list of \<open>promote_single_step\<close> is one shared list
  object. When the step script file is readable, two calls that omit \<open>env_vars\<close> both return a
  \<open>TaskStep\<close> whose \<open>env\<close> is that same object; each call appends its \<open>GARDENLINUX_PATH\<close> entry
  to it, so after the second call the list holds both entries after whatever it held
  before the first call.
\<close>

theorem default_env_vars_shared:
  assumes "fs (os_path_join (steps_dir own_dir) ''promote_step.py'') = Some body"
  shows "\<exists>h1 evs1 step1 ps1 h2 evs2 step2 ps2.
           promote_single_step own_dir fs params1 None volume_mounts1 h0
             = (h1, evs1, Inr (step1, ps1))
         \<and> promote_single_step own_dir fs params2 None volume_mounts2 h1
             = (h2, evs2, Inr (step2, ps2))
         \<and> ts_env step1 = promote_single_step_default_env_vars
         \<and> ts_env step2 = ts_env step1
         \<and> h1 (ts_env step1) = h0 (ts_env step1) @ [gardenlinux_path_entry params1]
         \<and> h2 (ts_env step2)
           = h0 (ts_env step2) @ [gardenlinux_path_entry params1, gardenlinux_path_entry params2]"
proof -
  let ?path = "os_path_join (steps_dir own_dir) ''promote_step.py''"
  have nonempty: "?path \<noteq> []"
    by (simp add: os_path_join_def)
  have rendered: "\<exists>s. task_step_script own_dir fs PYTHON3 (Some ''promote_single_step'') ps None rp
                        (Some ?path) None = ([Open ?path], Inr s)" for ps rp
    using assms nonempty by (simp add: task_step_script_def load_script_def truthy_def)
  obtain s1 where s1:
    "task_step_script own_dir fs PYTHON3 (Some ''promote_single_step'')
       [params_architecture params1, params_cicd_cfg_name params1,
        params_gardenlinux_committish params1, params_gardenlinux_epoch params1,
        params_modifiers params1, params_platform params1, params_build_targets params1,
        params_version params1]
       None (Some (params_repo_dir params1)) (Some ?path) None = ([Open ?path], Inr s1)"
    using rendered by blast
  obtain s2 where s2:
    "task_step_script own_dir fs PYTHON3 (Some ''promote_single_step'')
       [params_architecture params2, params_cicd_cfg_name params2,
        params_gardenlinux_committish params2, params_gardenlinux_epoch params2,
        params_modifiers params2, params_platform params2, params_build_targets params2,
        params_version params2]
       None (Some (params_repo_dir params2)) (Some ?path) None = ([Open ?path], Inr s2)"
    using rendered by blast
  show ?thesis
    by (simp add: promote_single_step_def Let_def s1 s2)
qed

text \<open>
  Witness: two calls in a fresh process, where the default list is still empty; afterwards
  it holds the \<open>GARDENLINUX_PATH\<close> entry twice.
\<close>

theorem default_env_vars_shared_witness:
  "\<exists>h1 evs1 step1 ps1 h2 evs2 step2 ps2.
     promote_single_step ''/glci/ci'' example_files example_params None None empty_heap
       = (h1, evs1, Inr (step1, ps1))
   \<and> promote_single_step ''/glci/ci'' example_files example_params None None h1
       = (h2, evs2, Inr (step2, ps2))
   \<and> ts_env step1 = promote_single_step_default_env_vars
   \<and> ts_env step2 = ts_env step1
   \<and> h1 (ts_env step1)
     = [[(''name'', Some ''GARDENLINUX_PATH''), (''value'', Some ''/workspace/gardenlinux_git'')]]
   \<and> h2 (ts_env step2)
     = [[(''name'', Some ''GARDENLINUX_PATH''), (''value'', Some ''/workspace/gardenlinux_git'')],
        [(''name'', Some ''GARDENLINUX_PATH''), (''value'', Some ''/workspace/gardenlinux_git'')]]"
proof -
  have readable: "example_files (os_path_join (steps_dir ''/glci/ci'') ''promote_step.py'')
              = Some ''def promote_single_step(**kw): pass''"
    by (simp add: example_files_def steps_dir_def os_path_join_def)
  from default_env_vars_shared[where fs=example_files and own_dir="''/glci/ci''", OF readable,
      of example_params None empty_heap example_params None]
  show ?thesis
    by (simp add: empty_heap_def gardenlinux_path_entry_def example_params_def)
qed

text \<open>
  The list is changed before the script file is read: a call that fails on the file has
  still appended its entry. A call that passes its own list leaves the default list alone
  and appends to the caller's list.
\<close>

lemma promote_single_step_appends_first:
  "fst (promote_single_step own_dir fs params None volume_mounts h)
       promote_single_step_default_env_vars
   = h promote_single_step_default_env_vars @ [gardenlinux_path_entry params]"
  by (simp add: promote_single_step_def Let_def split_beta)

lemma promote_single_step_own_list:
  assumes "a \<noteq> promote_single_step_default_env_vars"
  shows "fst (promote_single_step own_dir fs params (Some a) volume_mounts h)
             promote_single_step_default_env_vars
         = h promote_single_step_default_env_vars"
    and "fst (promote_single_step own_dir fs params (Some a) volume_mounts h) a
         = h a @ [gardenlinux_path_entry params]"
  using assms by (simp_all add: promote_single_step_def Let_def split_beta)


section \<open>Properties of the credential manager\<close>

lemma get_instance_calls_fixed:
  "instance_attr cls = Some inst \<Longrightarrow>
   get_instance_calls calls cls = (cls, replicate (length calls) inst)"
  by (induction calls) (auto simp: get_instance_def)

text \<open>A policy given as the value string of a member is resolved as documented.\<close>

lemma policy_string_resolution:
  "use_cc_config_server (CredentialManager_init ident getenv (Str ''always''))"
  "\<not> use_cc_config_server (CredentialManager_init ident getenv (Str ''never''))"
  "use_cc_config_server (CredentialManager_init ident getenv (Str ''probe''))
   = (truthy (getenv ''SECRETS_SERVER_ENDPOINT'')
      \<and> truthy (getenv ''SECRETS_SERVER_CONCOURSE_CFG_NAME''))"
  by (simp_all add: CredentialManager_init_def equals_def CCconfigPrecedence_value_def
      cc_config_server_available_def)

text \<open>A policy given as a member of the enumeration never selects the secret service.\<close>

lemma policy_member_never_matches:
  "\<not> use_cc_config_server (CredentialManager_init ident getenv (Member m))"
  by (simp add: CredentialManager_init_def equals_def)

text \<open>
  Claim C2 (policy \<open>ALWAYS\<close> selects the secret service, \<open>NEVER\<close> the local mode, \<open>PROBE\<close> the
  secret service exactly when both environment variables are set). The constructor compares
  the value string of a member with its argument, and a string never equals a member of
  the enumeration: with the member \<open>ALWAYS\<close>, and with the default argument of
  \<open>get_instance\<close> (the member \<open>PROBE\<close>) while both variables are set, the local mode is
  selected.
\<close>

theorem enum_member_policy_selects_local_mode:
  "use_cc_config_server (CredentialManager_init 0 secrets_environ (Member ALWAYS)) = False
   \<and> use_cc_config_server (snd (get_instance secrets_environ None class_initial)) = False
   \<and> cc_config_server_available secrets_environ"
  by (simp add: CredentialManager_init_def equals_def get_instance_def class_initial_def
      cc_config_server_available_def secrets_environ_def truthy_def Let_def)

text \<open>
  Claim C9: in a process that calls \<open>get_instance\<close> any number of times, the first call
  constructs the instance from its own policy argument and environment; every call,
  whatever its argument and the environment at that time, returns that same instance, and
  the constructor has run exactly once.
\<close>

theorem get_instance_constructs_once:
  "get_instance_calls ((getenv, a) # calls) class_initial
   = (\<lparr>instance_attr =
         Some (CredentialManager_init 0 getenv (case a of None \<Rightarrow> Member PROBE | Some v \<Rightarrow> v)),
       constructed = 1\<rparr>,
      replicate (Suc (length calls))
        (CredentialManager_init 0 getenv (case a of None \<Rightarrow> Member PROBE | Some v \<Rightarrow> v)))"
  by (simp add: get_instance_def class_initial_def get_instance_calls_fixed Let_def)


section \<open>Properties of \<open>publish_image\<close>\<close>

lemma select_functions_table:
  "m_platform release = ''ali'' \<Longrightarrow>
     select_functions release cfg = Some (publish_alicloud_image, Some clean_alicloud_image)"
  "m_platform release = ''aws'' \<Longrightarrow>
     select_functions release cfg = Some (publish_aws_image, Some cleanup_aws)"
  "m_platform release = ''gcp'' \<Longrightarrow> select_functions release cfg = Some (publish_gcp_image, None)"
  "m_platform release = ''azure'' \<Longrightarrow>
     select_functions release cfg
     = Some (if truthy (publish_azure_shared_gallery_cfg_name cfg)
             then publish_azure_shared_image_gallery else publish_azure_image, None)"
  "m_platform release = ''openstack'' \<Longrightarrow>
     select_functions release cfg = Some (publish_openstack_image, Some cleanup_openstack_image)"
  "m_platform release = ''oci'' \<Longrightarrow> select_functions release cfg = Some (publish_oci_image, None)"
  by (simp_all add: select_functions_def)

lemma publish_image_unknown_platform:
  "select_functions release cicd_cfg = None \<Longrightarrow>
   snd (publish_image providers release cicd_cfg) = Inr release"
  by (simp add: publish_image_def)

text \<open>When the publish routine returns, its value is returned and no cleanup routine runs.\<close>

lemma publish_image_success:
  assumes "select_functions release cicd_cfg = Some (publish_function, cleanup_function)"
    and "providers publish_function release cicd_cfg = Inr published"
  shows "publish_image providers release cicd_cfg
         = ([Logger_info (''running release for release.platform=''
                            @ repr_str (m_platform release)),
             Call publish_function release cicd_cfg],
            Inr published)"
  using assms by (simp add: publish_image_def)

text \<open>
  Claim C1, as amended: when the selected publish routine raises, \<open>publish_image\<close> calls it
  once, prints the trace, and then, for the platforms ali, aws and openstack, calls the
  platform's cleanup routine once and re-raises the original exception if the cleanup
  routine returns, while an exception raised by the cleanup routine is propagated in its
  place; for the platforms gcp, azure and oci it logs a warning and re-raises the original
  exception. Nothing is retried.
\<close>

theorem publish_image_failure_handling:
  assumes "select_functions release cicd_cfg = Some (publish_function, cleanup_function)"
    and "providers publish_function release cicd_cfg = Inl e"
  shows "(m_platform release \<in> {''ali'', ''aws'', ''openstack''} \<longrightarrow>
            (\<exists>cleanup. cleanup_function = Some cleanup
               \<and> fst (publish_image providers release cicd_cfg)
                 = [Logger_info (''running release for release.platform=''
                                   @ repr_str (m_platform release)),
                    Call publish_function release cicd_cfg,
                    Traceback_print_exc e,
                    Call cleanup release cicd_cfg]
               \<and> snd (publish_image providers release cicd_cfg)
                 = (case providers cleanup release cicd_cfg of
                      Inl e' \<Rightarrow> Inl e' | Inr _ \<Rightarrow> Inl e)))
       \<and> (m_platform release \<in> {''gcp'', ''azure'', ''oci''} \<longrightarrow>
            cleanup_function = None
            \<and> fst (publish_image providers release cicd_cfg)
              = [Logger_info (''running release for release.platform=''
                                @ repr_str (m_platform release)),
                 Call publish_function release cicd_cfg,
                 Traceback_print_exc e,
                 Logger_warning (''do not know how to cleanup release.platform=''
                                   @ repr_str (m_platform release))]
            \<and> snd (publish_image providers release cicd_cfg) = Inl e)"
proof (intro conjI impI)
  assume "m_platform release \<in> {''ali'', ''aws'', ''openstack''}"
  then obtain cleanup where "cleanup_function = Some cleanup"
    using assms(1) by (auto simp: select_functions_def)
  then show "\<exists>cleanup. cleanup_function = Some cleanup
               \<and> fst (publish_image providers release cicd_cfg)
                 = [Logger_info (''running release for release.platform=''
                                   @ repr_str (m_platform release)),
                    Call publish_function release cicd_cfg,
                    Traceback_print_exc e,
                    Call cleanup release cicd_cfg]
               \<and> snd (publish_image providers release cicd_cfg)
                 = (case providers cleanup release cicd_cfg of
                      Inl e' \<Rightarrow> Inl e' | Inr _ \<Rightarrow> Inl e)"
    using assms by (simp add: publish_image_def split: sum.splits)
next
  assume "m_platform release \<in> {''gcp'', ''azure'', ''oci''}"
  then show none: "cleanup_function = None"
    using assms(1) by (auto simp: select_functions_def split: if_splits)
  then show "fst (publish_image providers release cicd_cfg)
              = [Logger_info (''running release for release.platform=''
                                @ repr_str (m_platform release)),
                 Call publish_function release cicd_cfg,
                 Traceback_print_exc e,
                 Logger_warning (''do not know how to cleanup release.platform=''
                                   @ repr_str (m_platform release))]"
    using assms by (simp add: publish_image_def)
  from none show "snd (publish_image providers release cicd_cfg) = Inl e"
    using assms by (simp add: publish_image_def)
qed

text \<open>
  Witness: an AWS release whose publish routine raises and whose cleanup routine returns.
\<close>

theorem publish_image_failure_handling_witness:
  "fst (publish_image publish_fails aws_release example_cicd_cfg)
     = [Logger_info (''running release for release.platform='' @ repr_str ''aws''),
        Call publish_aws_image aws_release example_cicd_cfg,
        Traceback_print_exc (Exception ''publish failed''),
        Call cleanup_aws aws_release example_cicd_cfg]
   \<and> snd (publish_image publish_fails aws_release example_cicd_cfg)
     = Inl (Exception ''publish failed'')"
proof -
  have selected:
    "select_functions aws_release example_cicd_cfg = Some (publish_aws_image, Some cleanup_aws)"
    by (simp add: select_functions_def aws_release_def)
  have raised:
    "publish_fails publish_aws_image aws_release example_cicd_cfg
     = Inl (Exception ''publish failed'')"
    by (simp add: publish_fails_def)
  from publish_image_failure_handling[where providers=publish_fails, OF selected raised]
  show ?thesis
    by (simp add: aws_release_def publish_fails_def)
qed

text \<open>
  Counterexample to the claim as stated: the AWS publish routine raises \<open>publish failed\<close>,
  the cleanup routine raises \<open>cleanup failed\<close>, and \<open>publish_image\<close> raises the latter, not
  the original exception.
\<close>

theorem publish_image_cleanup_exception_wins:
  "publish_and_cleanup_fail publish_aws_image aws_release example_cicd_cfg
     = Inl (Exception ''publish failed'')
   \<and> select_functions aws_release example_cicd_cfg = Some (publish_aws_image, Some cleanup_aws)
   \<and> snd (publish_image publish_and_cleanup_fail aws_release example_cicd_cfg)
     = Inl (Exception ''cleanup failed'')"
  by (simp add: publish_image_def select_functions_def publish_and_cleanup_fail_def
      aws_release_def)


section \<open>Properties of the command line tool\<close>

subsection \<open>\<open>int\<close> reads back what \<open>str\<close> prints\<close>

lemma digit_val_char_of: "d < 10 \<Longrightarrow> digit_val (char_of (48 + d)) = Some (d :: nat)"
  by (simp add: digit_val_def Let_def)

lemma is_digit_char_of: "(d :: nat) < 10 \<Longrightarrow> is_digit (char_of (48 + d))"
  by (simp add: is_digit_def digit_val_char_of)

lemma is_digit_not_special:
  assumes "is_digit c"
  shows "c \<noteq> CHR ''_''" and "c \<noteq> CHR ''.''" and "c \<noteq> CHR ''-''" and "c \<noteq> CHR ''+''"
    and "\<not> is_space c"
  using assms by (auto simp: is_digit_def digit_val_def is_space_def Let_def)

lemma nat_digits_nonempty: "nat_digits n \<noteq> []"
  by (subst nat_digits.simps) simp

lemma nat_digits_all_digits: "c \<in> set (nat_digits n) \<Longrightarrow> is_digit c"
proof (induction n arbitrary: c rule: nat_digits.induct)
  case (1 n)
  show ?case
  proof (cases "n < 10")
    case True
    with "1.prems" show ?thesis
      by (subst (asm) nat_digits.simps) (simp add: is_digit_char_of)
  next
    case False
    with "1.prems" "1.IH" show ?thesis
      by (subst (asm) nat_digits.simps) (auto simp: is_digit_char_of)
  qed
qed

lemma nat_digits_ends:
  "is_digit (hd (nat_digits n))" "is_digit (last (nat_digits n))"
  using nat_digits_nonempty[of n] nat_digits_all_digits[of _ n] by simp_all

lemma digits_value_snoc:
  "is_digit c \<Longrightarrow> digits_value (xs @ [c]) = 10 * digits_value xs + the (digit_val c)"
  by (simp add: digits_value_def)

lemma digits_value_nat_digits: "digits_value (nat_digits n) = n"
proof (induction n rule: nat_digits.induct)
  case (1 n)
  show ?case
  proof (cases "n < 10")
    case True
    then show ?thesis
      by (subst nat_digits.simps) (simp add: digits_value_def is_digit_char_of digit_val_char_of)
  next
    case False
    have "digits_value (nat_digits (n div 10) @ [char_of (48 + n mod 10)])
          = 10 * digits_value (nat_digits (n div 10)) + n mod 10"
      by (simp add: digits_value_snoc is_digit_char_of digit_val_char_of)
    with False "1.IH" show ?thesis
      by (subst nat_digits.simps) simp
  qed
qed

lemma valid_digits_all: "xs \<noteq> [] \<Longrightarrow> (\<And>c. c \<in> set xs \<Longrightarrow> is_digit c) \<Longrightarrow> valid_digits xs"
proof (induction xs rule: valid_digits.induct)
  case 1
  then show ?case by simp
next
  case (2 c)
  then show ?case by simp
next
  case (3 c d r)
  have "d \<noteq> CHR ''_''"
    using "3.prems"(2)[of d] by (simp add: is_digit_not_special)
  with 3 show ?case by simp
qed

lemma valid_digits_nat_digits: "valid_digits (nat_digits n)"
  using nat_digits_nonempty nat_digits_all_digits by (rule valid_digits_all)

lemma strip_unchanged:
  assumes "s \<noteq> []" and "\<not> is_space (hd s)" and "\<not> is_space (last s)"
  shows "strip s = s"
proof -
  have "dropWhile is_space s = s"
    using assms(1,2) by (cases s) simp_all
  moreover have "dropWhile is_space (rev s) = rev s"
    using assms(1,3) by (cases "rev s") (simp_all add: last_rev[symmetric] hd_rev)
  ultimately show ?thesis by (simp add: strip_def)
qed

lemma py_int_digits:
  assumes "\<And>c. c \<in> set ds \<Longrightarrow> is_digit c" and "ds \<noteq> []"
    and "length ds \<le> int_max_str_digits"
    and "strip (sign @ ds) = sign @ ds" and "sign = [] \<or> sign = ''-''"
  shows "py_int (sign @ ds)
         = Inr (if sign = [] then int (digits_value ds) else - int (digits_value ds))"
proof -
  have all: "\<forall>c \<in> set ds. is_digit c \<or> c = CHR ''_''"
    using assms(1) by blast
  have run: "takeWhile (\<lambda>c. is_digit c \<or> c = CHR ''_'') ds = ds"
    using all by simp
  have rest: "dropWhile (\<lambda>c. is_digit c \<or> c = CHR ''_'') ds = []"
    using all by simp
  have digits: "filter is_digit ds = ds"
    using assms(1) by (simp add: filter_id_conv)
  have valid: "valid_digits ds"
    using assms(2,1) by (rule valid_digits_all)
  obtain d r where ds: "ds = d # r"
    using assms(2) by (cases ds) simp_all
  have first: "d \<noteq> CHR ''-''" "d \<noteq> CHR ''+''"
    using assms(1)[of d] ds by (simp_all add: is_digit_not_special)
  show ?thesis
  proof (cases "sign = []")
    case True
    have "strip ds = ds"
      using assms(4) True by simp
    moreover have "\<not> int_max_str_digits < length ds"
      using assms(3) by simp
    ultimately have "py_int (d # r) = Inr (int (digits_value (d # r)))"
      using first run rest digits valid unfolding ds
      by (simp only: py_int_def Let_def list.case if_False split_conv if_True simp_thms)
    with True ds show ?thesis by simp
  next
    case False
    with assms(5) have sign: "sign = ''-''"
      by simp
    have "strip (CHR ''-'' # ds) = CHR ''-'' # ds"
      using assms(4) sign by simp
    moreover have "\<not> int_max_str_digits < length ds"
      using assms(3) by simp
    ultimately have "py_int (CHR ''-'' # ds) = Inr (- int (digits_value ds))"
      using run rest digits valid
      by (simp only: py_int_def Let_def list.case if_False split_conv if_True simp_thms)
    with sign show ?thesis by simp
  qed
qed

lemma py_int_nat_digits:
  assumes "length (nat_digits n) \<le> int_max_str_digits"
  shows "py_int (nat_digits n) = Inr (int n)"
proof -
  have "strip ([] @ nat_digits n) = [] @ nat_digits n"
    using nat_digits_nonempty nat_digits_ends
    by (simp add: strip_unchanged is_digit_not_special)
  then have "py_int ([] @ nat_digits n)
             = Inr (if ([] :: string) = [] then int (digits_value (nat_digits n))
                    else - int (digits_value (nat_digits n)))"
    using nat_digits_all_digits nat_digits_nonempty assms
    by (intro py_int_digits) simp_all
  then show ?thesis
    by (simp add: digits_value_nat_digits)
qed

lemma py_int_minus_nat_digits:
  assumes "length (nat_digits n) \<le> int_max_str_digits"
  shows "py_int (CHR ''-'' # nat_digits n) = Inr (- int n)"
proof -
  have "\<not> is_space CHR ''-''"
    by (simp add: is_space_def)
  moreover have "\<not> is_space (last (nat_digits n))"
    using nat_digits_ends(2) by (rule is_digit_not_special)
  ultimately have "strip (''-'' @ nat_digits n) = ''-'' @ nat_digits n"
    using nat_digits_nonempty[of n] by (intro strip_unchanged) simp_all
  then have "py_int (''-'' @ nat_digits n)
             = Inr (if ''-'' = [] then int (digits_value (nat_digits n))
                    else - int (digits_value (nat_digits n)))"
    using nat_digits_all_digits nat_digits_nonempty assms
    by (intro py_int_digits) simp_all
  then show ?thesis
    by (simp add: digits_value_nat_digits)
qed

text \<open>Within the digit limit, \<open>str\<close> succeeds and \<open>int\<close> reads its result back.\<close>

lemma py_str_within_limit:
  "length (nat_digits (nat \<bar>i\<bar>)) \<le> int_max_str_digits \<Longrightarrow> py_str i = Inr (str_of_int i)"
  by (simp add: py_str_def)

lemma py_int_str_of_int:
  assumes "length (nat_digits (nat \<bar>i\<bar>)) \<le> int_max_str_digits"
  shows "py_int (str_of_int i) = Inr i"
proof (cases "i < 0")
  case True
  then have "nat \<bar>i\<bar> = nat (- i)"
    by simp
  with assms True show ?thesis
    by (simp add: str_of_int_def py_int_minus_nat_digits)
next
  case False
  then have "nat \<bar>i\<bar> = nat i"
    by simp
  with assms False show ?thesis
    by (simp add: str_of_int_def py_int_nat_digits)
qed

lemma split_dot_first_str_of_int: "split_dot_first (str_of_int i @ ''.0'') = str_of_int i"
proof -
  have "c \<noteq> CHR ''.''" if "c \<in> set (str_of_int i)" for c
    using that
    by (auto simp: str_of_int_def split: if_splits
        dest: nat_digits_all_digits is_digit_not_special(2))
  then show ?thesis
    by (simp add: split_dot_first_def)
qed

subsection \<open>\<open>_fix_version\<close>\<close>

text \<open>
  The default version, when it does not match the pattern, is replaced by the epoch
  followed by \<open>.0\<close>, without any warning.
\<close>

lemma fix_version_default_replaced:
  assumes "\<not> pattern_match default_version"
    and "length (nat_digits (nat \<bar>parsed_epoch\<bar>)) \<le> int_max_str_digits"
  shows "fix_version default_version default_version parsed_epoch
         = ([], Inr (str_of_int parsed_epoch @ ''.0''))"
  using assms
  by (simp add: fix_version_def split_dot_first_str_of_int py_int_str_of_int py_str_within_limit)

lemma fix_version_default_kept:
  assumes "pattern_match default_version"
    and "py_int (split_dot_first default_version) = Inr leading"
    and "length (nat_digits (nat \<bar>parsed_epoch\<bar>)) \<le> int_max_str_digits"
  shows "fix_version default_version default_version parsed_epoch
         = (if parsed_epoch \<noteq> leading
            then [Print (''>>> WARNING: version '' @ default_version @ '' does not match epoch ''
                           @ str_of_int parsed_epoch @ ''! <<<'')]
            else [],
            Inr default_version)"
  using assms by (simp add: fix_version_def py_str_within_limit)

text \<open>
  A version that differs from the default is returned unchanged, with the warnings, as long
  as \<open>int\<close> accepts the text before its first dot.
\<close>

lemma fix_version_given:
  assumes "parsed_version \<noteq> default_version"
    and "py_int (split_dot_first parsed_version) = Inr leading"
    and "length (nat_digits (nat \<bar>parsed_epoch\<bar>)) \<le> int_max_str_digits"
  shows "fix_version default_version parsed_version parsed_epoch
         = ((if \<not> pattern_match parsed_version
             then [Print (''>>> WARNING: '' @ parsed_version @ '' is not a semver version! <<<'')]
             else [])
            @ (if parsed_epoch \<noteq> leading
               then [Print (''>>> WARNING: version '' @ parsed_version @ '' does not match epoch ''
                              @ str_of_int parsed_epoch @ ''! <<<'')]
               else []),
            Inr parsed_version)"
  using assms by (simp add: fix_version_def py_str_within_limit)

text \<open>Otherwise the comparison with the epoch raises what \<open>int\<close> raises.\<close>

lemma fix_version_raises:
  assumes "parsed_version = default_version \<longrightarrow> pattern_match parsed_version"
    and "py_int (split_dot_first parsed_version) = Inl e"
  shows "snd (fix_version default_version parsed_version parsed_epoch) = Inl e"
  using assms by (cases "parsed_version = default_version") (simp_all add: fix_version_def)

text \<open>
  Claim C4 (a version that differs from the working-tree default is returned unchanged,
  with a warning when it is not a dot-and-digit string; a mismatch with the epoch only
  warns, the routine does not fail). For the version \<open>today\<close>, with the working-tree default
  318.9 and the epoch 318, the routine prints the warning and then raises \<open>ValueError\<close>:
  \<open>int\<close> does not accept the text before the first dot.
\<close>

theorem fix_version_raises_on_non_numeric_version:
  "fix_version ''318.9'' ''today'' 318
   = ([Print ''>>> WARNING: today is not a semver version! <<<''],
      Inl (ValueError (''invalid literal for int() with base 10: '' @ repr_str ''today'')))"
  by code_simp

subsection \<open>Downloading an artifact\<close>

lemma download_release_artifact_not_found:
  assumes "name \<noteq> ''log''" and "name \<noteq> ''logs''"
    and "\<forall>entry \<in> set (m_paths manifest). rf_name entry \<noteq> name"
  shows "download_release_artifact s3 cicd_cfg name outfile manifest
         = ([Print (''Error: No object in release manifest with name '' @ name)], Inr 1)"
proof -
  have "filter (\<lambda>entry. rf_name entry = name) (m_paths manifest) = []"
    using assms(3) by (simp add: filter_empty_conv)
  then show ?thesis
    using assms(1,2) by (simp add: download_release_artifact_def)
qed

lemma download_release_artifact_first_match:
  assumes "name \<noteq> ''log''" and "name \<noteq> ''logs''"
    and "filter (\<lambda>entry. rf_name entry = name) (m_paths manifest) = first # others"
  shows "download_release_artifact s3 cicd_cfg name outfile manifest
         = ((if others \<noteq> []
             then [Print (''Warning.: Found more than one file with name '' @ name
                            @ '', using first one'')]
             else [])
            @ [Print (''Downloading object with S3-key: '' @ rf_s3_key first @ '' from bucket ''
                        @ rf_s3_bucket_name first @ '', to '' @ outfile),
               S3_download_file (build_aws_cfg_name cicd_cfg) (rf_s3_bucket_name first)
                 (rf_s3_key first) outfile],
            case s3 (build_aws_cfg_name cicd_cfg) (rf_s3_bucket_name first) (rf_s3_key first)
                   outfile of
              Some e \<Rightarrow> Inl e
            | None \<Rightarrow> Inr 0)"
  using assms
  by (simp add: download_release_artifact_def download_tail_def download_obj_to_file_def)

lemma download_first_of_two:
  "download_release_artifact s3_available example_cicd_cfg ''a'' ''a'' manifest_a_a_b
   = ([Print ''Warning.: Found more than one file with name a, using first one'',
       Print ''Downloading object with S3-key: objects/a1 from bucket bucket-1, to a'',
       S3_download_file ''gardenlinux'' ''bucket-1'' ''objects/a1'' ''a''],
      Inr 0)"
  by code_simp

text \<open>Whatever the command returns, \<open>main\<close> drops it and the process ends with status 0.\<close>

lemma main_drops_return_value:
  "module_symbols host parsed (replace CHR ''-'' CHR ''_'' (basename argv0))
     = Some (evs, Return res_code) \<Longrightarrow>
   exit_status (snd (main host parsed argv0)) = 0"
  by (simp add: main_def exit_status_def)

text \<open>
  Claim C3 (no path entry with the requested name: an error is printed, the command exits
  with status 1 and no S3 call is made; several entries: a warning, and the first one is
  downloaded). For the manifest with the entries \<open>a\<close>, \<open>a\<close>, \<open>b\<close> and the request \<open>c\<close>, the error
  is printed, nothing is downloaded and \<open>retrieve_single_manifest\<close> returns 1, but \<open>main\<close>
  drops that value: the process ends with status 0.
\<close>

theorem missing_artifact_exits_with_status_0:
  "main example_host (download_args ''c'') ''/usr/local/bin/retrieve-single-manifest''
     = ([Print_used_args ''318.9'' 318, Print ''Error: No object in release manifest with name c''],
        Return ())
   \<and> snd (retrieve_single_manifest example_host (download_args ''c'')) = Return (Some 1)
   \<and> exit_status (snd (main example_host (download_args ''c'')
                          ''/usr/local/bin/retrieve-single-manifest'')) = 0"
  by code_simp

end
